theory Spec2Isabelle
  imports Complex_Main "HOL-Library.Word"
begin

section \<open>Values of the host language\<close>

text \<open>
  The package \<^verbatim>\<open>exec-utils\<close> wraps the child-process functions of Node.js. Its
  source is \<^verbatim>\<open>src/index.ts\<close> (the functions \<^verbatim>\<open>setupAbortHandling\<close>,
  \<^verbatim>\<open>handleInput\<close>, \<^verbatim>\<open>createResult\<close>, \<^verbatim>\<open>createErrorResult\<close>, \<^verbatim>\<open>spawn\<close>
  and \<^verbatim>\<open>exec\<close>), \<^verbatim>\<open>src/Error.ts\<close> and \<^verbatim>\<open>src/types.ts\<close>.

  A \<^verbatim>\<open>Buffer\<close> is a list of bytes. A string of the program is an Isabelle string.
  A value that can be thrown, or given as the reason of an abort, is either an instance
  of \<^verbatim>\<open>Error\<close>, of which the program reads the \<^verbatim>\<open>message\<close>, or any other value, of
  which the program reads at most the rendering \<^verbatim>\<open>String(v)\<close>: these are the two
  sides of the test \<^verbatim>\<open>v instanceof Error\<close>.
\<close>

type_synonym buffer = "8 word list"

datatype js_value = Error_inst string | Non_error string

text \<open>
  A number of the program is a double: a finite value, which is a rational number, or
  one of the three special values. The program tests numbers for truthiness (0 and
  \<^verbatim>\<open>NaN\<close> are falsy), compares a byte count with one, and prints them in template
  literals.
\<close>

datatype number = Finite rat | PosInf | NegInf | NaN

definition truthy :: "number \<Rightarrow> bool" where
  "truthy n = (case n of Finite r \<Rightarrow> r \<noteq> 0 | PosInf \<Rightarrow> True | NegInf \<Rightarrow> True | NaN \<Rightarrow> False)"

text \<open>\<^verbatim>\<open>count > n\<close> for a byte count, which is a natural number.\<close>

definition exceeds :: "nat \<Rightarrow> number \<Rightarrow> bool" where
  "exceeds count n =
     (case n of Finite r \<Rightarrow> of_nat count > r | PosInf \<Rightarrow> False | NegInf \<Rightarrow> True | NaN \<Rightarrow> False)"

text \<open>
  What the program takes from the platform is a parameter of the model:
  \<^item> \<open>utf8\<close>: \<^verbatim>\<open>buffer.toString('utf8')\<close>, which every platform has;
  \<^item> \<open>named\<close>: the decoder of an encoding by its name, or the value that
    \<^verbatim>\<open>buffer.toString(encoding)\<close> throws when the platform does not know the name;
  \<^item> \<open>encode_utf8\<close>: \<^verbatim>\<open>Buffer.from(text, 'utf8')\<close>;
  \<^item> \<open>number_toString\<close>: the text of a number in a template literal.
\<close>

record codec =
  utf8 :: "buffer \<Rightarrow> string"
  named :: "string \<Rightarrow> js_value + (buffer \<Rightarrow> string)"
  encode_utf8 :: "string \<Rightarrow> buffer"
  number_toString :: "number \<Rightarrow> string"

text \<open>\<^verbatim>\<open>buffer.toString(encoding)\<close>: \<open>Inl\<close> is the value thrown.\<close>

definition toString :: "codec \<Rightarrow> string \<Rightarrow> buffer \<Rightarrow> js_value + string" where
  "toString P enc b =
     (if enc = ''utf8'' then Inr (utf8 P b)
      else (case named P enc of Inl e \<Rightarrow> Inl e | Inr f \<Rightarrow> Inr (f b)))"

text \<open>
  \<^verbatim>\<open>Buffer.concat(list, totalLength)\<close> fills a buffer of \<^verbatim>\<open>totalLength\<close> bytes with
  the chunks in order: what does not fit is cut, what is missing is zero.
\<close>

definition Buffer_concat :: "buffer list \<Rightarrow> nat \<Rightarrow> buffer" where
  "Buffer_concat chunks totalLength =
     take totalLength (concat chunks) @ replicate (totalLength - length (concat chunks)) 0"

section \<open>Options and the object store\<close>

text \<open>
  \<^verbatim>\<open>BaseOptions\<close> of \<^verbatim>\<open>types.ts\<close>, extended by the options of the process host, which
  the program never reads: they are kept as a map from option name to value. An absent
  property is \<open>None\<close>. The \<^verbatim>\<open>signal\<close> of the caller is present or not, and when
  present it carries its state at the time of the call: not aborted (\<open>None\<close>) or aborted
  with a reason.
\<close>

datatype input_payload = Text string | Bytes buffer | Stream

datatype host_value = HBool bool | HNum int | HStr string | HObj nat

record options =
  timeout :: "number option"
  maxBuffer :: "number option"
  encoding :: "string option"
  signal :: "js_value option option"
  input :: "input_payload option"
  others :: "string \<rightharpoonup> host_value"

text \<open>
  Option objects live in a store, and a reference to one is its index: the caller hands a
  reference to \<^verbatim>\<open>spawn\<close> and \<^verbatim>\<open>exec\<close>, the spread \<^verbatim>\<open>{ ...options }\<close> allocates a new
  object, and \<^verbatim>\<open>delete\<close> updates the object a reference points to.
\<close>

type_synonym heap = "options list"

definition spread :: "heap \<Rightarrow> nat \<Rightarrow> (options \<Rightarrow> options) \<Rightarrow> heap \<times> nat" where
  "spread h a extra = (h @ [extra (h ! a)], length h)"

definition assign :: "heap \<Rightarrow> nat \<Rightarrow> (options \<Rightarrow> options) \<Rightarrow> heap" where
  "assign h a f = h[a := f (h ! a)]"

text \<open>\<^verbatim>\<open>options.encoding || 'utf8'\<close> and \<^verbatim>\<open>options.maxBuffer || 80 * 1024 * 1024\<close>:
  the empty string and a falsy number give the default.\<close>

definition encoding_of :: "options \<Rightarrow> string" where
  "encoding_of opts =
     (case encoding opts of None \<Rightarrow> ''utf8'' | Some e \<Rightarrow> if e = [] then ''utf8'' else e)"

definition maxBuffer_of :: "options \<Rightarrow> number" where
  "maxBuffer_of opts =
     (case maxBuffer opts of None \<Rightarrow> Finite (80 * 1024 * 1024)
      | Some n \<Rightarrow> if truthy n then n else Finite (80 * 1024 * 1024))"

section \<open>The result\<close>

text \<open>
  \<^verbatim>\<open>ExecUtilsError\<close> of \<^verbatim>\<open>Error.ts\<close> and \<^verbatim>\<open>SpawnResult\<close> of \<^verbatim>\<open>types.ts\<close>; \<open>None\<close> is
  \<^verbatim>\<open>null\<close>. The process handle of the result is not modelled. The code is what the host
  reports at the \<^verbatim>\<open>close\<close> event: a number, or \<^verbatim>\<open>null\<close> when a signal ended the child
  (the array of \<^verbatim>\<open>events.once\<close> is untyped, so the annotation \<^verbatim>\<open>code: number\<close> of
  \<^verbatim>\<open>createResult\<close> is not checked against it).
\<close>

datatype ExecUtilsError = ExecUtilsError (message: string) (ecode: "int option")

record SpawnResult =
  data :: "string option"
  dataAsBuffer :: "buffer option"
  error :: "ExecUtilsError option"
  code :: "int option"

text \<open>\<^verbatim>\<open>createResult\<close> returns the result, or throws what \<^verbatim>\<open>toString\<close> throws
  (\<open>Inl\<close>).\<close>

definition createResult ::
  "codec \<Rightarrow> int option \<Rightarrow> buffer list \<Rightarrow> nat \<Rightarrow> buffer list \<Rightarrow> nat \<Rightarrow> string \<Rightarrow>
     js_value + SpawnResult" where
  "createResult P c dataChunks dataLength errorChunks errorLength enc =
     (if c = Some 0 then
        (let buffer = Buffer_concat dataChunks dataLength in
         case toString P enc buffer of
           Inl thrown \<Rightarrow> Inl thrown
         | Inr text \<Rightarrow>
             Inr \<lparr>data = Some text, dataAsBuffer = Some buffer, error = None, code = c\<rparr>)
      else
        (let errorBuffer = Buffer_concat errorChunks errorLength in
         case toString P ''utf8'' errorBuffer of
           Inl thrown \<Rightarrow> Inl thrown
         | Inr errorStr \<Rightarrow>
             (let execError = ExecUtilsError errorStr c in
              Inr \<lparr>data = None, dataAsBuffer = None, error = Some execError, code = c\<rparr>)))"

text \<open>The second argument is the state of the signal: \<open>None\<close> when it is not aborted,
  its reason when it is.\<close>

definition createErrorResult :: "js_value \<Rightarrow> js_value option \<Rightarrow> SpawnResult" where
  "createErrorResult err sig =
     (let execError =
            (case err of Error_inst m \<Rightarrow> ExecUtilsError m (Some (- 1))
             | Non_error _ \<Rightarrow> ExecUtilsError ''Unknown error occurred'' (Some (- 1)));
          execError' =
            (case sig of None \<Rightarrow> execError
             | Some reason \<Rightarrow>
                 (case reason of Error_inst m \<Rightarrow> ExecUtilsError m (Some (- 1))
                  | Non_error _ \<Rightarrow> ExecUtilsError ''Operation aborted'' (Some (- 1))))
      in \<lparr>data = None, dataAsBuffer = None, error = Some execError', code = Some (- 1)\<rparr>)"

section \<open>The cancellation signal\<close>

text \<open>
  \<^verbatim>\<open>setupAbortHandling\<close> creates an \<^verbatim>\<open>AbortController\<close>, starts the timer when
  \<^verbatim>\<open>options.timeout\<close> is truthy, and returns as \<^verbatim>\<open>signal\<close> the controller's own
  signal, or \<^verbatim>\<open>AbortSignal.any([options.signal, abortController.signal])\<close> when the
  caller gave a signal. The state holds the three signals, each \<open>None\<close> while it is not
  aborted and its reason afterwards:
  \<^item> \<open>own_reason\<close>: the signal of the controller;
  \<^item> \<open>ext_reason\<close>: the signal of the caller, \<open>None\<close> when there is none;
  \<^item> \<open>any_reason\<close>: the combined signal, used only when the caller gave one.

  The platform's rules are written out: \<^verbatim>\<open>abort(reason)\<close> on a signal that is aborted
  does nothing; a combined signal is created aborted when a source already is, and
  otherwise aborts with the reason of the first source that aborts; the \<^verbatim>\<open>abort\<close>
  event is dispatched once, at the moment the signal becomes aborted, to the listeners
  registered by then.

  \<open>timer\<close> says that the timeout is pending, \<open>listening\<close> that the listener of
  \<^verbatim>\<open>spawn\<close> or \<^verbatim>\<open>exec\<close> is registered and has not run (it is registered with
  \<^verbatim>\<open>once: true\<close>), \<open>kills\<close> counts the calls of \<^verbatim>\<open>kill('SIGTERM')\<close>.
\<close>

record abort_state =
  own_reason :: "js_value option"
  ext_reason :: "js_value option option"
  any_reason :: "js_value option"
  timer :: bool
  listening :: bool
  kills :: nat

definition signal_reason :: "abort_state \<Rightarrow> js_value option" where
  "signal_reason a = (if ext_reason a = None then own_reason a else any_reason a)"

text \<open>\<^verbatim>\<open>cleanup\<close> clears the timer; the listener calls it and then kills the child.\<close>

definition cleanup :: "abort_state \<Rightarrow> abort_state" where
  "cleanup a = a\<lparr>timer := False\<rparr>"

definition fire :: "abort_state \<Rightarrow> abort_state" where
  "fire a = (if listening a then (cleanup a)\<lparr>listening := False, kills := kills a + 1\<rparr> else a)"

text \<open>\<^verbatim>\<open>abortController.abort(reason)\<close>.\<close>

definition abort_own :: "js_value \<Rightarrow> abort_state \<Rightarrow> abort_state" where
  "abort_own reason a =
     (case own_reason a of
        Some _ \<Rightarrow> a
      | None \<Rightarrow>
          (let a1 = a\<lparr>own_reason := Some reason\<rparr> in
           case ext_reason a of
             None \<Rightarrow> fire a1
           | Some _ \<Rightarrow>
               (case any_reason a of
                  None \<Rightarrow> fire (a1\<lparr>any_reason := Some reason\<rparr>)
                | Some _ \<Rightarrow> a1)))"

text \<open>The caller aborts the signal given in the options.\<close>

definition abort_ext :: "js_value \<Rightarrow> abort_state \<Rightarrow> abort_state" where
  "abort_ext reason a =
     (case ext_reason a of
        Some None \<Rightarrow>
          (let a1 = a\<lparr>ext_reason := Some (Some reason)\<rparr> in
           case any_reason a of
             None \<Rightarrow> fire (a1\<lparr>any_reason := Some reason\<rparr>)
           | Some _ \<Rightarrow> a1)
      | _ \<Rightarrow> a)"

definition timeout_message :: "codec \<Rightarrow> number \<Rightarrow> string" where
  "timeout_message P n = ''Command timed out after '' @ number_toString P n @ ''ms''"

text \<open>The callback of \<^verbatim>\<open>setTimeout\<close>; a timer that was cleared, or never started, does
  not run it.\<close>

definition on_timeout :: "codec \<Rightarrow> options \<Rightarrow> abort_state \<Rightarrow> abort_state" where
  "on_timeout P opts a =
     (case timeout opts of
        None \<Rightarrow> a
      | Some n \<Rightarrow>
          if timer a then abort_own (Error_inst (timeout_message P n)) (a\<lparr>timer := False\<rparr>)
          else a)"

definition setupAbortHandling :: "options \<Rightarrow> abort_state" where
  "setupAbortHandling opts =
     \<lparr>own_reason = None,
      ext_reason = signal opts,
      any_reason = (case signal opts of Some (Some r) \<Rightarrow> Some r | _ \<Rightarrow> None),
      timer = (case timeout opts of None \<Rightarrow> False | Some n \<Rightarrow> truthy n),
      listening = False,
      kills = 0\<rparr>"

section \<open>The child and its events\<close>

text \<open>
  What the process host does is the environment of the program: whether the launch
  throws, whether the child has an input stream, whether the first operation of
  \<^verbatim>\<open>handleInput\<close> on that stream (\<^verbatim>\<open>write\<close> or \<^verbatim>\<open>pipe\<close>) throws, and the events
  that reach the listeners afterwards, in order. \<^verbatim>\<open>end()\<close> is called without an
  argument and reports its errors through events, not by throwing. A stream that the
  child does not have (\<^verbatim>\<open>child.stdout?.on\<close>) delivers no event.

  The chunk of an error-stream event is a \<^verbatim>\<open>Buffer\<close> or, as the handler provides for,
  a string. \<^verbatim>\<open>close\<close> carries the exit code, or \<^verbatim>\<open>null\<close>; \<^verbatim>\<open>error\<close> on the child
  makes \<^verbatim>\<open>once(child, 'close')\<close> reject.
\<close>

datatype chunk = Buf buffer | Txt string

datatype event =
    Stdout_data buffer
  | Stderr_data chunk
  | Timer_fired
  | External_abort js_value
  | Input_end
  | Input_error string
  | Close "int option"
  | Child_error js_value

record child =
  has_stdin :: bool
  stdin_fault :: "js_value option"
  events :: "event list"

datatype launch = Throws js_value | Launched child

type_synonym host = "string \<Rightarrow> string list \<Rightarrow> options \<Rightarrow> launch"

record run_state =
  ab :: abort_state
  stdin_written :: "buffer list"
  stdin_ended :: bool
  stdin_piped :: bool
  end_listener :: bool
  error_listener :: bool
  dataChunks :: "buffer list"
  dataLength :: nat
  errorChunks :: "buffer list"
  errorLength :: nat

definition initial :: "abort_state \<Rightarrow> run_state" where
  "initial a =
     \<lparr>ab = a, stdin_written = [], stdin_ended = False, stdin_piped = False,
      end_listener = False, error_listener = False,
      dataChunks = [], dataLength = 0, errorChunks = [], errorLength = 0\<rparr>"

subsection \<open>The input feeder\<close>

text \<open>The body of the \<^verbatim>\<open>try\<close> block of \<^verbatim>\<open>handleInput\<close>: \<open>Inl\<close> is the value thrown.\<close>

definition try_input :: "codec \<Rightarrow> child \<Rightarrow> input_payload \<Rightarrow> run_state \<Rightarrow> js_value + run_state" where
  "try_input P ch payload s =
     (case stdin_fault ch of
        Some e \<Rightarrow> Inl e
      | None \<Rightarrow>
          Inr (case payload of
                 Text t \<Rightarrow>
                   s\<lparr>stdin_written := stdin_written s @ [encode_utf8 P t], stdin_ended := True\<rparr>
               | Bytes b \<Rightarrow> s\<lparr>stdin_written := stdin_written s @ [b], stdin_ended := True\<rparr>
               | Stream \<Rightarrow> s\<lparr>stdin_piped := True, end_listener := True, error_listener := True\<rparr>))"

definition write_failure_message :: "js_value \<Rightarrow> string" where
  "write_failure_message err =
     ''Failed to write to stdin: '' @ (case err of Error_inst m \<Rightarrow> m | Non_error t \<Rightarrow> t)"

definition handleInput :: "codec \<Rightarrow> child \<Rightarrow> input_payload option \<Rightarrow> run_state \<Rightarrow> run_state" where
  "handleInput P ch inp s =
     (case inp of
        None \<Rightarrow> s
      | Some payload \<Rightarrow>
          if \<not> has_stdin ch then s
          else (case try_input P ch payload s of
                  Inr s' \<Rightarrow> s'
                | Inl err \<Rightarrow>
                    (let s1 = s\<lparr>stdin_ended := True\<rparr> in
                     s1\<lparr>ab := abort_own (Error_inst (write_failure_message err)) (ab s1)\<rparr>)))"

text \<open>The listeners that \<^verbatim>\<open>handleInput\<close> puts on a stream payload, each with
  \<^verbatim>\<open>once\<close>.\<close>

definition on_input_end :: "run_state \<Rightarrow> run_state" where
  "on_input_end s =
     (if end_listener s then s\<lparr>end_listener := False, stdin_ended := True\<rparr> else s)"

definition on_input_error :: "string \<Rightarrow> run_state \<Rightarrow> run_state" where
  "on_input_error m s =
     (if error_listener s
      then s\<lparr>error_listener := False,
             ab := abort_own (Error_inst (''Input stream error: '' @ m)) (ab s)\<rparr>
      else s)"

subsection \<open>The output accumulator\<close>

definition maxBuffer_message :: "codec \<Rightarrow> number \<Rightarrow> string" where
  "maxBuffer_message P n = ''MaxBuffer size exceeded ('' @ number_toString P n @ '' bytes)''"

text \<open>The listener of \<^verbatim>\<open>child.stdout\<close>.\<close>

definition on_stdout_data :: "codec \<Rightarrow> number \<Rightarrow> buffer \<Rightarrow> run_state \<Rightarrow> run_state" where
  "on_stdout_data P maxBuf c s =
     (let s1 = s\<lparr>dataChunks := dataChunks s @ [c], dataLength := dataLength s + length c\<rparr> in
      if exceeds (dataLength s1) maxBuf
      then s1\<lparr>ab := abort_own (Error_inst (maxBuffer_message P maxBuf)) (ab s1)\<rparr>
      else s1)"

text \<open>The listener of \<^verbatim>\<open>child.stderr\<close>.\<close>

definition on_stderr_data :: "codec \<Rightarrow> number \<Rightarrow> chunk \<Rightarrow> run_state \<Rightarrow> run_state" where
  "on_stderr_data P maxBuf c s =
     (let s1 = s\<lparr>errorChunks := errorChunks s @ [case c of Buf b \<Rightarrow> b | Txt t \<Rightarrow> encode_utf8 P t],
                errorLength := errorLength s + (case c of Buf b \<Rightarrow> length b | Txt t \<Rightarrow> length t)\<rparr> in
      if exceeds (dataLength s1 + errorLength s1) maxBuf
      then s1\<lparr>ab := abort_own (Error_inst (maxBuffer_message P maxBuf)) (ab s1)\<rparr>
      else s1)"

section \<open>The argument-vector runner\<close>

text \<open>One event reaches its listener. The two events that settle
  \<^verbatim>\<open>once(child, 'close')\<close> are taken by \<open>drive\<close> below.\<close>

fun handle :: "codec \<Rightarrow> options \<Rightarrow> event \<Rightarrow> run_state \<Rightarrow> run_state" where
  "handle P opts (Stdout_data c) s = on_stdout_data P (maxBuffer_of opts) c s"
| "handle P opts (Stderr_data c) s = on_stderr_data P (maxBuffer_of opts) c s"
| "handle P opts Timer_fired s = s\<lparr>ab := on_timeout P opts (ab s)\<rparr>"
| "handle P opts (External_abort r) s = s\<lparr>ab := abort_ext r (ab s)\<rparr>"
| "handle P opts Input_end s = on_input_end s"
| "handle P opts (Input_error m) s = on_input_error m s"
| "handle P opts (Close c) s = s"
| "handle P opts (Child_error e) s = s"

text \<open>
  The \<^verbatim>\<open>try\<close> block of \<^verbatim>\<open>spawn\<close> once \<^verbatim>\<open>close\<close> has come: an aborted signal throws
  its reason, and \<^verbatim>\<open>createResult\<close> may throw; the \<^verbatim>\<open>catch\<close> block turns what is
  thrown into a result. Both paths call \<^verbatim>\<open>cleanup\<close> before they return; it clears the
  timer, on which no result depends.
\<close>

definition on_close :: "codec \<Rightarrow> options \<Rightarrow> run_state \<Rightarrow> int option \<Rightarrow> SpawnResult" where
  "on_close P opts s c =
     (case signal_reason (ab s) of
        Some reason \<Rightarrow> createErrorResult reason (signal_reason (ab s))
      | None \<Rightarrow>
          (case createResult P c (dataChunks s) (dataLength s) (errorChunks s) (errorLength s)
                  (encoding_of opts) of
             Inr result \<Rightarrow> result
           | Inl err \<Rightarrow> createErrorResult err (signal_reason (ab s))))"

text \<open>The promise of an \<^verbatim>\<open>async\<close> function: not settled, resolved with a result, or
  rejected with the value thrown.\<close>

datatype outcome = Unsettled | Resolved SpawnResult | Rejected js_value

fun drive :: "codec \<Rightarrow> options \<Rightarrow> run_state \<Rightarrow> event list \<Rightarrow> outcome" where
  "drive P opts s [] = Unsettled"
| "drive P opts s (Close c # es) = Resolved (on_close P opts s c)"
| "drive P opts s (Child_error e # es) = Resolved (createErrorResult e (signal_reason (ab s)))"
| "drive P opts s (e # es) = drive P opts (handle P opts e s) es"

text \<open>Lines 140 to 144 of \<^verbatim>\<open>spawn\<close>: the copy of the options and the four
  \<^verbatim>\<open>delete\<close> statements.\<close>

definition spawnOptions :: "heap \<Rightarrow> nat \<Rightarrow> heap \<times> nat" where
  "spawnOptions h a =
     (let (h0, a') = spread h a (\<lambda>opts. opts);
          h1 = assign h0 a' (\<lambda>opts. opts\<lparr>timeout := None\<rparr>);
          h2 = assign h1 a' (\<lambda>opts. opts\<lparr>maxBuffer := None\<rparr>);
          h3 = assign h2 a' (\<lambda>opts. opts\<lparr>encoding := None\<rparr>);
          h4 = assign h3 a' (\<lambda>opts. opts\<lparr>input := None\<rparr>)
      in (h4, a'))"

text \<open>The listener of the signal is registered after \<^verbatim>\<open>handleInput\<close> has run.\<close>

definition listen :: "run_state \<Rightarrow> run_state" where
  "listen s = s\<lparr>ab := (ab s)\<lparr>listening := True\<rparr>\<rparr>"

definition spawn :: "codec \<Rightarrow> host \<Rightarrow> string \<Rightarrow> string list \<Rightarrow> heap \<Rightarrow> nat \<Rightarrow> heap \<times> outcome" where
  "spawn P host command args h a =
     (let opts = h ! a;
          st = setupAbortHandling opts;
          (h', a') = spawnOptions h a
      in case host command args (h' ! a') of
           Throws e \<Rightarrow> (h', Rejected e)
         | Launched ch \<Rightarrow>
             (h', drive P opts (listen (handleInput P ch (input opts) (initial st))) (events ch)))"

section \<open>The shell runner\<close>

text \<open>
  Without an input, \<^verbatim>\<open>exec\<close> awaits the promisified \<^verbatim>\<open>childProcess.exec\<close>, which
  buffers the output itself: the call may throw, and otherwise the promise resolves with
  the output or rejects, while the timer and the caller's signal may fire before.
\<close>

datatype exec_event =
    Exec_timer
  | Exec_abort js_value
  | Exec_resolved buffer
  | Exec_rejected js_value

datatype exec_launch = Exec_throws js_value | Exec_started "exec_event list"

type_synonym exec_host = "string \<Rightarrow> options \<Rightarrow> exec_launch"

fun exec_drive :: "codec \<Rightarrow> options \<Rightarrow> abort_state \<Rightarrow> exec_event list \<Rightarrow> outcome" where
  "exec_drive P opts a [] = Unsettled"
| "exec_drive P opts a (Exec_timer # es) = exec_drive P opts (on_timeout P opts a) es"
| "exec_drive P opts a (Exec_abort r # es) = exec_drive P opts (abort_ext r a) es"
| "exec_drive P opts a (Exec_resolved stdout # es) =
     Resolved
       (case signal_reason a of
          Some reason \<Rightarrow> createErrorResult reason (signal_reason a)
        | None \<Rightarrow>
            (case toString P (encoding_of opts) stdout of
               Inr text \<Rightarrow>
                 \<lparr>data = Some text, dataAsBuffer = Some stdout, error = None, code = Some 0\<rparr>
             | Inl err \<Rightarrow> createErrorResult err (signal_reason a)))"
| "exec_drive P opts a (Exec_rejected e # es) = Resolved (createErrorResult e (signal_reason a))"

text \<open>Lines 247 to 249 of \<^verbatim>\<open>exec\<close>.\<close>

definition execOptions :: "heap \<Rightarrow> nat \<Rightarrow> heap \<times> nat" where
  "execOptions h a =
     (let (h0, a') =
            spread h a
              (\<lambda>opts. opts\<lparr>encoding := Some ''buffer'', maxBuffer := Some (maxBuffer_of opts)\<rparr>);
          h1 = assign h0 a' (\<lambda>opts. opts\<lparr>timeout := None\<rparr>);
          h2 = assign h1 a' (\<lambda>opts. opts\<lparr>signal := None\<rparr>)
      in (h2, a'))"

definition exec :: "codec \<Rightarrow> host \<Rightarrow> exec_host \<Rightarrow> string \<Rightarrow> heap \<Rightarrow> nat \<Rightarrow> heap \<times> outcome" where
  "exec P host xhost command h a =
     (let opts = h ! a in
      if input opts \<noteq> None then
        (let (h0, a0) = spread h a (\<lambda>opts. opts\<lparr>others := (others opts)(''shell'' \<mapsto> HBool True)\<rparr>)
         in spawn P host ''sh'' [''-c'', command] h0 a0)
      else
        (let st = setupAbortHandling opts;
             (h', a') = execOptions h a
         in case xhost command (h' ! a') of
              Exec_throws e \<Rightarrow> (h', Rejected e)
            | Exec_started evs \<Rightarrow> (h', exec_drive P opts (st\<lparr>listening := True\<rparr>) evs)))"

section \<open>Executions\<close>

text \<open>
  The vocabulary for statements about a whole execution. An event settles the awaited
  promise of \<^verbatim>\<open>spawn\<close> when it is \<^verbatim>\<open>close\<close> or \<^verbatim>\<open>error\<close> of the child;
  \<open>run_events\<close> is the state after the listeners have taken a list of events;
  \<open>handed\<close> is the object that \<^verbatim>\<open>spawn\<close> hands to the host, and \<open>awaiting\<close> the state
  in which \<^verbatim>\<open>spawn\<close> reaches its \<^verbatim>\<open>await\<close>.
\<close>

definition settles :: "event \<Rightarrow> bool" where
  "settles e = (case e of Close _ \<Rightarrow> True | Child_error _ \<Rightarrow> True | _ \<Rightarrow> False)"

fun run_events :: "codec \<Rightarrow> options \<Rightarrow> run_state \<Rightarrow> event list \<Rightarrow> run_state" where
  "run_events P opts s [] = s"
| "run_events P opts s (e # es) = run_events P opts (handle P opts e s) es"

definition handed :: "heap \<Rightarrow> nat \<Rightarrow> options" where
  "handed h a = (let (h', a') = spawnOptions h a in h' ! a')"

definition awaiting :: "codec \<Rightarrow> options \<Rightarrow> child \<Rightarrow> run_state" where
  "awaiting P opts ch = listen (handleInput P ch (input opts) (initial (setupAbortHandling opts)))"

text \<open>The chunks of the output stream in a list of events, in the order of delivery.\<close>

fun stdout_of :: "event list \<Rightarrow> buffer list" where
  "stdout_of [] = []"
| "stdout_of (Stdout_data c # es) = c # stdout_of es"
| "stdout_of (e # es) = stdout_of es"

text \<open>The chunks of the error stream as the listener stores them, and the count it
  keeps of them.\<close>

fun stderr_of :: "codec \<Rightarrow> event list \<Rightarrow> buffer list" where
  "stderr_of P [] = []"
| "stderr_of P (Stderr_data c # es) = (case c of Buf b \<Rightarrow> b | Txt t \<Rightarrow> encode_utf8 P t) # stderr_of P es"
| "stderr_of P (e # es) = stderr_of P es"

fun stderr_len :: "event list \<Rightarrow> nat" where
  "stderr_len [] = 0"
| "stderr_len (Stderr_data c # es) = (case c of Buf b \<Rightarrow> length b | Txt t \<Rightarrow> length t) + stderr_len es"
| "stderr_len (e # es) = stderr_len es"

text \<open>The same for \<^verbatim>\<open>exec\<close> without an input.\<close>

definition exec_settles :: "exec_event \<Rightarrow> bool" where
  "exec_settles e = (case e of Exec_resolved _ \<Rightarrow> True | Exec_rejected _ \<Rightarrow> True | _ \<Rightarrow> False)"

fun exec_run :: "codec \<Rightarrow> options \<Rightarrow> abort_state \<Rightarrow> exec_event list \<Rightarrow> abort_state" where
  "exec_run P opts a [] = a"
| "exec_run P opts a (Exec_timer # es) = exec_run P opts (on_timeout P opts a) es"
| "exec_run P opts a (Exec_abort r # es) = exec_run P opts (abort_ext r a) es"
| "exec_run P opts a (e # es) = exec_run P opts a es"

definition exec_handed :: "heap \<Rightarrow> nat \<Rightarrow> options" where
  "exec_handed h a = (let (h', a') = execOptions h a in h' ! a')"

definition exec_awaiting :: "options \<Rightarrow> abort_state" where
  "exec_awaiting opts = (setupAbortHandling opts)\<lparr>listening := True\<rparr>"

section \<open>Concrete inputs\<close>

text \<open>
  The options \<^verbatim>\<open>{}\<close>, which are the default of both runners, and a platform for
  the examples. It reads every byte as one character and back, as UTF-8 does on ASCII
  text; it knows the encodings \<^verbatim>\<open>latin1\<close> and \<^verbatim>\<open>hex\<close> besides \<^verbatim>\<open>utf8\<close> and throws
  \<^verbatim>\<open>Unknown encoding: <name>\<close> for every other name; it prints the integers of
  magnitude below \<open>10\<^sup>2\<^sup>1\<close> in decimal and the special values by their names, as
  Node.js does. The examples use no other number: for those it gives the empty text,
  which stands for a rendering that is not modelled.
\<close>

definition digit_char :: "nat \<Rightarrow> char" where
  "digit_char d = ''0123456789abcdef'' ! d"

fun decimal :: "nat \<Rightarrow> string" where
  "decimal n = (if n < 10 then [digit_char n] else decimal (n div 10) @ [digit_char (n mod 10)])"

declare decimal.simps [simp del]

definition print_number :: "number \<Rightarrow> string" where
  "print_number n =
     (case n of
        NaN \<Rightarrow> ''NaN''
      | PosInf \<Rightarrow> ''Infinity''
      | NegInf \<Rightarrow> ''-Infinity''
      | Finite r \<Rightarrow>
          if r = of_int \<lfloor>r\<rfloor> \<and> \<bar>r\<bar> < 10 ^ 21
          then (if r < 0 then ''-'' @ decimal (nat (- \<lfloor>r\<rfloor>)) else decimal (nat \<lfloor>r\<rfloor>))
          else [])"

definition hex :: "buffer \<Rightarrow> string" where
  "hex b = concat (map (\<lambda>w. [digit_char (unat w div 16), digit_char (unat w mod 16)]) b)"

definition no_options :: options where
  "no_options =
     \<lparr>timeout = None, maxBuffer = None, encoding = None, signal = None, input = None,
      others = Map.empty\<rparr>"

definition byte_codec :: codec where
  "byte_codec =
     \<lparr>utf8 = map (\<lambda>b. char_of (unat b)),
      named = (\<lambda>enc. if enc = ''latin1'' then Inr (map (\<lambda>b. char_of (unat b)))
                    else if enc = ''hex'' then Inr hex
                    else Inl (Error_inst (''Unknown encoding: '' @ enc))),
      encode_utf8 = (\<lambda>t. map (\<lambda>c. of_nat (of_char c)) t),
      number_toString = print_number\<rparr>"

text \<open>A child without input stream that delivers the given events.\<close>

definition plays :: "event list \<Rightarrow> host" where
  "plays evs = (\<lambda>command args opts. Launched \<lparr>has_stdin = False, stdin_fault = None, events = evs\<rparr>)"

definition exec_plays :: "exec_event list \<Rightarrow> exec_host" where
  "exec_plays evs = (\<lambda>command opts. Exec_started evs)"

text \<open>The failure variant that \<^verbatim>\<open>createErrorResult\<close> builds: no data, the code \<open>-1\<close>
  in the error and in the result.\<close>

abbreviation failure :: "string \<Rightarrow> SpawnResult" where
  "failure m \<equiv>
     \<lparr>data = None, dataAsBuffer = None, error = Some (ExecUtilsError m (Some (- 1))),
      code = Some (- 1)\<rparr>"

text \<open>Options with a timeout of 5 ms and a signal of the caller that is not aborted, and
  a child that has delivered nothing yet.\<close>

definition racing :: options where
  "racing = no_options\<lparr>timeout := Some (Finite 5), signal := Some None\<rparr>"

definition idle_child :: child where
  "idle_child = \<lparr>has_stdin = False, stdin_fault = None, events = []\<rparr>"


text \<open>A host that launches the given child; a child whose input stream throws on the
  first write; a child fed from a stream that fails.\<close>

definition gives :: "child \<Rightarrow> host" where
  "gives ch = (\<lambda>command args opts. Launched ch)"

definition broken_stdin :: child where
  "broken_stdin =
     \<lparr>has_stdin = True, stdin_fault = Some (Error_inst ''write EPIPE''), events = [Close (Some 0)]\<rparr>"

definition failing_stream :: child where
  "failing_stream =
     \<lparr>has_stdin = True, stdin_fault = None, events = [Input_error ''read failed'', Close None]\<rparr>"

text \<open>Options with every recognized option set, and the working directory for the host.\<close>

definition with_cwd :: options where
  "with_cwd =
     \<lparr>timeout = Some (Finite 5000), maxBuffer = Some (Finite 1024), encoding = Some ''hex'',
      signal = Some None,
      input = Some (Text ''hello''), others = [''cwd'' \<mapsto> HStr ''/tmp'']\<rparr>"

text \<open>Options with a ceiling of 10 bytes, and chunks of 11 and of 8 bytes.\<close>

definition capped :: options where
  "capped = no_options\<lparr>maxBuffer := Some (Finite 10)\<rparr>"

definition eleven :: buffer where
  "eleven = [1, 2, 3, 4, 5, 6, 7, 8, 9, 10, 11]"

definition eight :: buffer where
  "eight = [1, 2, 3, 4, 5, 6, 7, 8]"

text \<open>Hosts that validate the command as Node.js does: \<^verbatim>\<open>childProcess.spawn\<close> and
  \<^verbatim>\<open>childProcess.exec\<close> throw \<^verbatim>\<open>ERR_INVALID_ARG_VALUE\<close> for an empty command, before
  any child exists.\<close>

definition validating_host :: host where
  "validating_host =
     (\<lambda>command args opts.
        if command = [] then Throws (Error_inst ''ERR_INVALID_ARG_VALUE'') else Launched idle_child)"

definition validating_exec_host :: exec_host where
  "validating_exec_host =
     (\<lambda>command opts.
        if command = [] then Exec_throws (Error_inst ''ERR_INVALID_ARG_VALUE'') else Exec_started [])"

section \<open>The signal keeps its first reason\<close>

lemma fire_fields [simp]:
  "own_reason (fire a) = own_reason a"
  "ext_reason (fire a) = ext_reason a"
  "any_reason (fire a) = any_reason a"
  by (simp_all add: fire_def cleanup_def)

lemma signal_reason_fire [simp]: "signal_reason (fire a) = signal_reason a"
  by (simp add: signal_reason_def)

lemma ext_reason_abort_own [simp]: "ext_reason (abort_own x a) = ext_reason a"
  by (simp add: abort_own_def Let_def split: option.splits)

lemma abort_own_keeps:
  "signal_reason a = Some r \<Longrightarrow> signal_reason (abort_own x a) = Some r \<and> kills (abort_own x a) = kills a"
  by (auto simp: abort_own_def signal_reason_def fire_def cleanup_def Let_def split: option.splits)

lemma abort_ext_keeps:
  "signal_reason a = Some r \<Longrightarrow> signal_reason (abort_ext x a) = Some r \<and> kills (abort_ext x a) = kills a"
  by (auto simp: abort_ext_def signal_reason_def Let_def split: option.splits)

lemma on_timeout_keeps:
  "signal_reason a = Some r \<Longrightarrow> signal_reason (on_timeout P opts a) = Some r \<and> kills (on_timeout P opts a) = kills a"
proof -
  assume h: "signal_reason a = Some r"
  then have "signal_reason (a\<lparr>timer := False\<rparr>) = Some r"
    by (auto simp: signal_reason_def split: if_splits)
  from abort_own_keeps [OF this] h show ?thesis
    by (simp add: on_timeout_def split: option.splits)
qed

lemma handle_keeps:
  "signal_reason (ab s) = Some r \<Longrightarrow>
   signal_reason (ab (handle P opts e s)) = Some r \<and> kills (ab (handle P opts e s)) = kills (ab s)"
  by (cases e)
     (auto simp: on_stdout_data_def on_stderr_data_def on_input_end_def on_input_error_def Let_def
        abort_own_keeps abort_ext_keeps on_timeout_keeps)

lemma run_events_keeps:
  "signal_reason (ab s) = Some r \<Longrightarrow>
   signal_reason (ab (run_events P opts s es)) = Some r \<and> kills (ab (run_events P opts s es)) = kills (ab s)"
  by (induction es arbitrary: s) (simp_all add: handle_keeps)

lemma drive_append:
  "\<forall>e \<in> set pre. \<not> settles e \<Longrightarrow>
   drive P opts s (pre @ es) = drive P opts (run_events P opts s pre) es"
proof (induction pre arbitrary: s)
  case Nil
  then show ?case by simp
next
  case (Cons e pre)
  then show ?case by (cases e) (simp_all add: settles_def)
qed

lemma spawn_launched:
  "host command args (handed h a) = Launched ch \<Longrightarrow>
   snd (spawn P host command args h a) = drive P (h ! a) (awaiting P (h ! a) ch) (events ch)"
  by (simp add: spawn_def handed_def awaiting_def Let_def split: prod.splits)

lemma spawn_throws:
  "host command args (handed h a) = Throws e \<Longrightarrow> snd (spawn P host command args h a) = Rejected e"
  by (simp add: spawn_def handed_def Let_def split: prod.splits)

lemma handle_dataChunks:
  "dataChunks (handle P opts e s) = dataChunks s @ stdout_of [e] \<and>
   dataLength (handle P opts e s) = dataLength s + length (concat (stdout_of [e]))"
  by (cases e) (simp_all add: on_stdout_data_def on_stderr_data_def on_input_end_def on_input_error_def Let_def)

lemma stdout_of_Cons: "stdout_of (e # es) = stdout_of [e] @ stdout_of es"
  by (cases e) simp_all

lemma run_events_data:
  "dataChunks (run_events P opts s es) = dataChunks s @ stdout_of es \<and>
   dataLength (run_events P opts s es) = dataLength s + length (concat (stdout_of es))"
proof (induction es arbitrary: s)
  case Nil
  then show ?case by simp
next
  case (Cons e es)
  show ?case
    using Cons.IH [of "handle P opts e s"] handle_dataChunks [of P opts e s]
      stdout_of_Cons [of e es]
    by simp
qed

lemma Buffer_concat_exact: "Buffer_concat cs (length (concat cs)) = concat cs"
  by (simp add: Buffer_concat_def)

lemma awaiting_buffers:
  "dataChunks (awaiting P opts ch) = [] \<and> dataLength (awaiting P opts ch) = 0 \<and>
   errorChunks (awaiting P opts ch) = [] \<and> errorLength (awaiting P opts ch) = 0"
  by (simp add: awaiting_def listen_def handleInput_def try_input_def initial_def Let_def
      split: option.splits input_payload.splits sum.splits)

section \<open>What the buffers hold\<close>

lemma handle_error:
  "errorChunks (handle P opts e s) = errorChunks s @ stderr_of P [e] \<and>
   errorLength (handle P opts e s) = errorLength s + stderr_len [e]"
  by (cases e) (simp_all add: on_stdout_data_def on_stderr_data_def on_input_end_def on_input_error_def Let_def)

lemma stderr_of_Cons: "stderr_of P (e # es) = stderr_of P [e] @ stderr_of P es"
  by (cases e) simp_all

lemma stderr_len_Cons: "stderr_len (e # es) = stderr_len [e] + stderr_len es"
  by (cases e) simp_all

lemma run_events_error:
  "errorChunks (run_events P opts s es) = errorChunks s @ stderr_of P es \<and>
   errorLength (run_events P opts s es) = errorLength s + stderr_len es"
proof (induction es arbitrary: s)
  case Nil
  then show ?case by simp
next
  case (Cons e es)
  show ?case
    using Cons.IH [of "handle P opts e s"] handle_error [of P opts e s]
      stderr_of_Cons [of P e es] stderr_len_Cons [of e es]
    by simp
qed

lemma decode_boom: "utf8 byte_codec [98, 111, 111, 109] = ''boom''"
  by (simp add: byte_codec_def) code_simp

lemma decode_hi: "utf8 byte_codec [104, 105] = ''hi''"
  by (simp add: byte_codec_def) code_simp

text \<open>When every chunk of the error stream is a \<^verbatim>\<open>Buffer\<close>, the count is the number
  of bytes stored, and \<^verbatim>\<open>Buffer.concat\<close> neither cuts nor pads.\<close>

lemma stderr_len_buffers:
  "\<forall>t. Stderr_data (Txt t) \<notin> set es \<Longrightarrow> stderr_len es = length (concat (stderr_of P es))"
proof (induction es)
  case Nil
  then show ?case by simp
next
  case (Cons e es)
  show ?case
  proof (cases e)
    case (Stderr_data c)
    with Cons show ?thesis by (cases c) auto
  qed (use Cons in auto)
qed

section \<open>The result of a clean exit\<close>

lemma decode_hex: "hex [104, 105] = ''6869''"
  by (simp add: hex_def digit_char_def)

lemmas run_defs =
  awaiting_def listen_def handleInput_def try_input_def initial_def setupAbortHandling_def
  on_stdout_data_def on_stderr_data_def on_input_end_def on_input_error_def on_timeout_def
  on_close_def createResult_def createErrorResult_def toString_def Buffer_concat_def
  abort_own_def abort_ext_def fire_def cleanup_def signal_reason_def
  maxBuffer_of_def encoding_of_def maxBuffer_message_def timeout_message_def
  truthy_def exceeds_def Let_def


lemma print_number_10: "number_toString byte_codec (Finite 10) = ''10''"
  by (simp add: byte_codec_def print_number_def decimal.simps digit_char_def)

lemma print_number_5: "number_toString byte_codec (Finite 5) = ''5''"
  by (simp add: byte_codec_def print_number_def decimal.simps digit_char_def)

lemma createErrorResult_aborted:
  "createErrorResult err (Some r) =
     failure (case r of Error_inst m \<Rightarrow> m | Non_error v \<Rightarrow> ''Operation aborted'')"
  by (simp add: createErrorResult_def split: js_value.splits)

lemma createErrorResult_thrown:
  "createErrorResult err None =
     failure (case err of Error_inst m \<Rightarrow> m | Non_error v \<Rightarrow> ''Unknown error occurred'')"
  by (simp add: createErrorResult_def split: js_value.splits)

lemma toString_utf8: "toString P ''utf8'' b = Inr (utf8 P b)"
  by (simp add: toString_def)

lemma on_close_quiet:
  assumes "signal_reason (ab s) = None"
  shows "on_close P opts s (Some n) =
     (if n = 0
      then (case toString P (encoding_of opts) (Buffer_concat (dataChunks s) (dataLength s)) of
              Inr text \<Rightarrow>
                \<lparr>data = Some text,
                 dataAsBuffer = Some (Buffer_concat (dataChunks s) (dataLength s)),
                 error = None, code = Some 0\<rparr>
            | Inl thrown \<Rightarrow>
                failure (case thrown of Error_inst m \<Rightarrow> m
                         | Non_error v \<Rightarrow> ''Unknown error occurred''))
      else \<lparr>data = None, dataAsBuffer = None,
            error = Some (ExecUtilsError
              (utf8 P (Buffer_concat (errorChunks s) (errorLength s))) (Some n)),
            code = Some n\<rparr>)"
proof (cases "n = 0")
  case True
  show ?thesis
  proof (cases "toString P (encoding_of opts) (Buffer_concat (dataChunks s) (dataLength s))")
    case (Inl thrown)
    with True assms show ?thesis
      by (simp add: on_close_def createResult_def Let_def createErrorResult_thrown)
  next
    case (Inr decoded)
    with True assms show ?thesis
      by (simp add: on_close_def createResult_def Let_def)
  qed
next
  case False
  with assms show ?thesis
    by (simp add: on_close_def createResult_def Let_def toString_utf8)
qed

text \<open>
  C3, as the program has it. When \<^verbatim>\<open>spawn\<close> observes the exit code of the child and the
  signal has not fired by then: with exit code 0 the output buffer (all chunks of the output
  stream, in order) is decoded with the configured encoding, which is
  \<^verbatim>\<open>options.encoding\<close> or \<^verbatim>\<open>utf8\<close> when that is absent or empty. When the platform
  decodes, the result is the success variant with the text as data and the buffer as
  \<^verbatim>\<open>dataAsBuffer\<close>; when \<^verbatim>\<open>toString\<close> throws, as it does for an encoding the platform
  does not know, the result is the failure variant with the code \<open>-1\<close> and the message of
  what was thrown. An exit code \<open>n\<close> other than 0 gives the failure variant, whose message is
  the error buffer decoded as UTF-8 and whose code is \<open>n\<close>.
\<close>

theorem clean_exit_result:
  assumes launch: "host command args (handed h a) = Launched ch"
    and trace: "events ch = pre @ Close (Some n) # post"
    and pre: "\<forall>e \<in> set pre. \<not> settles e"
    and quiet: "signal_reason (ab (run_events P (h ! a) (awaiting P (h ! a) ch) pre)) = None"
  shows "snd (spawn P host command args h a) =
     Resolved
       (if n = 0
        then (case toString P
                     (case encoding (h ! a) of None \<Rightarrow> ''utf8''
                      | Some e \<Rightarrow> if e = [] then ''utf8'' else e)
                     (concat (stdout_of pre)) of
                Inr text \<Rightarrow>
                  \<lparr>data = Some text, dataAsBuffer = Some (concat (stdout_of pre)), error = None,
                   code = Some 0\<rparr>
              | Inl thrown \<Rightarrow>
                  failure (case thrown of Error_inst m \<Rightarrow> m
                           | Non_error v \<Rightarrow> ''Unknown error occurred''))
        else \<lparr>data = None, dataAsBuffer = None,
              error = Some (ExecUtilsError
                (utf8 P (Buffer_concat (stderr_of P pre) (stderr_len pre))) (Some n)),
              code = Some n\<rparr>)"
proof -
  let ?s = "run_events P (h ! a) (awaiting P (h ! a) ch) pre"
  have "snd (spawn P host command args h a) = drive P (h ! a) ?s (Close (Some n) # post)"
    using spawn_launched [where host = host and P = P, of command args h a ch] launch
      drive_append [OF pre] trace by simp
  also have "\<dots> = Resolved (on_close P (h ! a) ?s (Some n))"
    by simp
  finally show ?thesis
    using run_events_data [of P "h ! a" "awaiting P (h ! a) ch" pre]
      run_events_error [of P "h ! a" "awaiting P (h ! a) ch" pre]
      awaiting_buffers [of P "h ! a" ch]
    by (simp add: on_close_quiet [OF quiet] Buffer_concat_exact encoding_of_def
        cong: sum.case_cong)
qed

text \<open>A program that exits with code 7 after writing \<^verbatim>\<open>boom\<close> to its error stream,
  and one that exits with code 0 after writing \<^verbatim>\<open>hi\<close> to its output stream, run with
  the encoding \<^verbatim>\<open>hex\<close>.\<close>

theorem clean_exit_witness:
  "snd (spawn byte_codec (plays [Stderr_data (Buf [98, 111, 111, 109]), Close (Some 7)])
       ''prog'' [] [no_options] 0) =
   Resolved \<lparr>data = None, dataAsBuffer = None, error = Some (ExecUtilsError ''boom'' (Some 7)),
     code = Some 7\<rparr>
   \<and> snd (spawn byte_codec (plays [Stdout_data [104, 105], Close (Some 0)])
       ''echo'' [''-n'', ''hi''] [no_options\<lparr>encoding := Some ''hex''\<rparr>] 0) =
   Resolved \<lparr>data = Some ''6869'', dataAsBuffer = Some [104, 105], error = None, code = Some 0\<rparr>"
proof -
  let ?evs = "[Stderr_data (Buf [98, 111, 111, 109]), Close (Some 7)]"
  let ?ch = "\<lparr>has_stdin = False, stdin_fault = None, events = ?evs\<rparr>"
  have launch: "plays ?evs ''prog'' [] (handed [no_options] 0) = Launched ?ch"
    by (simp add: plays_def)
  have trace: "events ?ch = [Stderr_data (Buf [98, 111, 111, 109])] @ Close (Some 7) # []"
    by simp
  have pre: "\<forall>e \<in> set [Stderr_data (Buf [98, 111, 111, 109])]. \<not> settles e"
    by (simp add: settles_def)
  have quiet: "signal_reason (ab (run_events byte_codec ([no_options] ! 0)
      (awaiting byte_codec ([no_options] ! 0) ?ch) [Stderr_data (Buf [98, 111, 111, 109])])) = None"
    by (simp add: run_defs no_options_def)
  let ?h' = "[no_options\<lparr>encoding := Some ''hex''\<rparr>]"
  let ?evs' = "[Stdout_data [104, 105], Close (Some 0)]"
  let ?ch' = "\<lparr>has_stdin = False, stdin_fault = None, events = ?evs'\<rparr>"
  have launch': "plays ?evs' ''echo'' [''-n'', ''hi''] (handed ?h' 0) = Launched ?ch'"
    by (simp add: plays_def)
  have trace': "events ?ch' = [Stdout_data [104, 105]] @ Close (Some 0) # []"
    by simp
  have pre': "\<forall>e \<in> set [Stdout_data [104, 105]]. \<not> settles e"
    by (simp add: settles_def)
  have quiet': "signal_reason (ab (run_events byte_codec (?h' ! 0)
      (awaiting byte_codec (?h' ! 0) ?ch') [Stdout_data [104, 105]])) = None"
    by (simp add: run_defs no_options_def)
  have hexed: "toString byte_codec ''hex'' [104, 105] = Inr ''6869''"
    by (simp add: toString_def byte_codec_def decode_hex)
  show ?thesis
    using clean_exit_result [where host = "plays ?evs" and P = byte_codec and h = "[no_options]"
        and a = 0 and ch = ?ch and command = "''prog''" and args = "[]" and n = 7
        and pre = "[Stderr_data (Buf [98, 111, 111, 109])]" and post = "[]"]
      launch trace pre quiet
      clean_exit_result [where host = "plays ?evs'" and P = byte_codec and h = ?h'
        and a = 0 and ch = ?ch' and command = "''echo''" and args = "[''-n'', ''hi'']" and n = 0
        and pre = "[Stdout_data [104, 105]]" and post = "[]"]
      launch' trace' pre' quiet'
    by (simp add: decode_boom hexed Buffer_concat_def no_options_def)
qed

text \<open>
  C3, as it is stated, fails for an encoding that the platform does not know:
  \<^verbatim>\<open>toString\<close> throws inside the \<^verbatim>\<open>try\<close> block, and the call that observed exit code 0
  without any cancellation resolves with the failure variant and the code \<open>-1\<close>.
\<close>

theorem unknown_encoding_fails:
  "snd (spawn byte_codec (plays [Stdout_data [104, 105], Close (Some 0)])
       ''echo'' [''-n'', ''hi''] [no_options\<lparr>encoding := Some ''klingon''\<rparr>] 0) =
   Resolved (failure ''Unknown encoding: klingon'')"
  by (simp add: spawn_def spawnOptions_def spread_def assign_def plays_def run_defs
      no_options_def byte_codec_def)

section \<open>The result of an abnormal end\<close>

lemma drive_settles_aborted:
  "settles t \<Longrightarrow> signal_reason (ab s) = Some r \<Longrightarrow>
   drive P opts s (t # post) = Resolved (createErrorResult r (Some r))"
  by (cases t) (simp_all add: settles_def on_close_def createErrorResult_def)

lemma exec_drive_append:
  "\<forall>e \<in> set pre. \<not> exec_settles e \<Longrightarrow>
   exec_drive P opts a (pre @ es) = exec_drive P opts (exec_run P opts a pre) es"
proof (induction pre arbitrary: a)
  case Nil
  then show ?case by simp
next
  case (Cons e pre)
  then show ?case by (cases e) (simp_all add: exec_settles_def)
qed

lemma exec_started:
  "input (h ! a) = None \<Longrightarrow> xhost command (exec_handed h a) = Exec_started evs \<Longrightarrow>
   snd (exec P host xhost command h a) = exec_drive P (h ! a) (exec_awaiting (h ! a)) evs"
  by (simp add: exec_def exec_handed_def exec_awaiting_def Let_def split: prod.splits)

lemma exec_throws:
  "input (h ! a) = None \<Longrightarrow> xhost command (exec_handed h a) = Exec_throws e \<Longrightarrow>
   snd (exec P host xhost command h a) = Rejected e"
  by (simp add: exec_def exec_handed_def Let_def split: prod.splits)

lemma exec_drive_settles_aborted:
  "exec_settles t \<Longrightarrow> signal_reason a = Some r \<Longrightarrow>
   exec_drive P opts a (t # post) = Resolved (createErrorResult r (Some r))"
  by (cases t) (simp_all add: exec_settles_def createErrorResult_def)

lemma spawn_abnormal:
  assumes launch: "host command args (handed h a) = Launched ch"
    and trace: "events ch = pre @ t # post"
    and pre: "\<forall>e \<in> set pre. \<not> settles e"
    and t: "settles t"
  shows "(signal_reason (ab (run_events P (h ! a) (awaiting P (h ! a) ch) pre)) = Some r \<longrightarrow>
            snd (spawn P host command args h a) =
              Resolved (failure (case r of Error_inst m \<Rightarrow> m | Non_error v \<Rightarrow> ''Operation aborted'')))
       \<and> (signal_reason (ab (run_events P (h ! a) (awaiting P (h ! a) ch) pre)) = None \<longrightarrow>
            t = Child_error x \<longrightarrow>
            snd (spawn P host command args h a) =
              Resolved (failure (case x of Error_inst m \<Rightarrow> m | Non_error v \<Rightarrow> ''Unknown error occurred'')))"
proof -
  let ?s = "run_events P (h ! a) (awaiting P (h ! a) ch) pre"
  have run: "snd (spawn P host command args h a) = drive P (h ! a) ?s (t # post)"
    using spawn_launched [where host = host and P = P, of command args h a ch] launch
      drive_append [OF pre] trace by simp
  show ?thesis
  proof (intro conjI impI)
    assume "signal_reason (ab ?s) = Some r"
    from drive_settles_aborted [OF t this] run
    show "snd (spawn P host command args h a) =
        Resolved (failure (case r of Error_inst m \<Rightarrow> m | Non_error v \<Rightarrow> ''Operation aborted''))"
      by (simp add: createErrorResult_aborted)
  next
    assume "signal_reason (ab ?s) = None" and "t = Child_error x"
    with run
    show "snd (spawn P host command args h a) =
        Resolved (failure (case x of Error_inst m \<Rightarrow> m | Non_error v \<Rightarrow> ''Unknown error occurred''))"
      by (simp add: createErrorResult_thrown)
  qed
qed

lemma exec_abnormal:
  assumes noinput: "input (h ! a) = None"
    and launch: "xhost command (exec_handed h a) = Exec_started (pre @ t # post)"
    and pre: "\<forall>e \<in> set pre. \<not> exec_settles e"
    and t: "exec_settles t"
  shows "(signal_reason (exec_run P (h ! a) (exec_awaiting (h ! a)) pre) = Some r \<longrightarrow>
            snd (exec P host xhost command h a) =
              Resolved (failure (case r of Error_inst m \<Rightarrow> m | Non_error v \<Rightarrow> ''Operation aborted'')))
       \<and> (signal_reason (exec_run P (h ! a) (exec_awaiting (h ! a)) pre) = None \<longrightarrow>
            t = Exec_rejected x \<longrightarrow>
            snd (exec P host xhost command h a) =
              Resolved (failure (case x of Error_inst m \<Rightarrow> m | Non_error v \<Rightarrow> ''Unknown error occurred'')))"
proof -
  let ?s = "exec_run P (h ! a) (exec_awaiting (h ! a)) pre"
  have run: "snd (exec P host xhost command h a) = exec_drive P (h ! a) ?s (t # post)"
    using exec_started [where xhost = xhost and P = P and host = host and command = command
        and evs = "pre @ t # post", OF noinput] launch exec_drive_append [OF pre]
    by simp
  show ?thesis
  proof (intro conjI impI)
    assume "signal_reason ?s = Some r"
    from exec_drive_settles_aborted [OF t this] run
    show "snd (exec P host xhost command h a) =
        Resolved (failure (case r of Error_inst m \<Rightarrow> m | Non_error v \<Rightarrow> ''Operation aborted''))"
      by (simp add: createErrorResult_aborted)
  next
    assume "signal_reason ?s = None" and "t = Exec_rejected x"
    with run
    show "snd (exec P host xhost command h a) =
        Resolved (failure (case x of Error_inst m \<Rightarrow> m | Non_error v \<Rightarrow> ''Unknown error occurred''))"
      by (simp add: createErrorResult_thrown)
  qed
qed

lemma exec_delegates:
  "input (h ! a) \<noteq> None \<Longrightarrow>
   exec P host xhost command h a =
     spawn P host ''sh'' [''-c'', command]
       (h @ [(h ! a)\<lparr>others := (others (h ! a))(''shell'' \<mapsto> HBool True)\<rparr>]) (length h)"
  by (simp add: exec_def spread_def Let_def)

text \<open>An abort by the caller with a reason that is no \<^verbatim>\<open>Error\<close>, and a program that does
  not exist: once the child is launched, the abnormal end is a failure variant with the
  code \<open>-1\<close>.\<close>

lemma abnormal_end_examples:
  "snd (spawn byte_codec
         (plays [External_abort (Non_error ''stop''), Child_error (Error_inst ''aborted''), Close None])
         ''sleep'' [''10''] [no_options\<lparr>signal := Some None\<rparr>] 0) =
     Resolved (failure ''Operation aborted'')
   \<and> snd (spawn byte_codec (plays [Child_error (Error_inst ''spawn nope ENOENT''), Close (Some (- 2))])
         ''nope'' [] [no_options] 0) =
     Resolved (failure ''spawn nope ENOENT'')
   \<and> snd (exec byte_codec (plays []) (exec_plays [Exec_rejected (Non_error ''7'')])
         ''exit 7'' [no_options] 0) =
     Resolved (failure ''Unknown error occurred'')"
  by (simp add: spawn_def exec_def spawnOptions_def execOptions_def spread_def assign_def
      plays_def exec_plays_def run_defs no_options_def)

text \<open>
  C4 says that every abnormal end, an exception instead of a clean exit included, gives
  the failure variant with the code \<open>-1\<close> and the message of what was thrown. When the
  exception is thrown by the launch itself (line 146, and line 253 in \<^verbatim>\<open>exec\<close>), it
  never reaches \<^verbatim>\<open>createErrorResult\<close>: the call has no result at all, here with the
  empty command, for both runners.
\<close>

theorem launch_failure_no_result:
  "snd (spawn byte_codec validating_host [] [] [no_options] 0) \<noteq>
     Resolved (failure ''ERR_INVALID_ARG_VALUE'')
   \<and> (\<forall>r. snd (spawn byte_codec validating_host [] [] [no_options] 0) \<noteq> Resolved r)
   \<and> snd (exec byte_codec validating_host validating_exec_host [] [no_options] 0) \<noteq>
     Resolved (failure ''ERR_INVALID_ARG_VALUE'')
   \<and> (\<forall>r. snd (exec byte_codec validating_host validating_exec_host [] [no_options] 0) \<noteq>
     Resolved r)"
  by (simp add: spawn_def exec_def spawnOptions_def execOptions_def spread_def assign_def
      validating_host_def validating_exec_host_def no_options_def Let_def)

section \<open>The first reason wins\<close>

lemma exec_run_keeps:
  "signal_reason a = Some r \<Longrightarrow>
   signal_reason (exec_run P opts a es) = Some r \<and> kills (exec_run P opts a es) = kills a"
proof (induction es arbitrary: a)
  case Nil
  then show ?case by simp
next
  case (Cons e es)
  then show ?case
    by (cases e) (simp_all add: on_timeout_keeps abort_ext_keeps)
qed

lemma handleInput_keeps:
  "signal_reason (ab s) = Some r \<Longrightarrow> signal_reason (ab (handleInput P ch inp s)) = Some r"
proof -
  assume h: "signal_reason (ab s) = Some r"
  then have "signal_reason (ab (s\<lparr>stdin_ended := True\<rparr>)) = Some r" by simp
  from abort_own_keeps [OF this] h show ?thesis
    by (auto simp: handleInput_def try_input_def Let_def
        split: option.splits sum.splits input_payload.splits)
qed

lemma abort_own_records:
  "signal_reason a = None \<Longrightarrow> own_reason a = None \<Longrightarrow> signal_reason (abort_own x a) = Some x"
  by (auto simp: abort_own_def signal_reason_def Let_def split: option.splits if_splits)

lemma abort_ext_records:
  "signal_reason a = None \<Longrightarrow> ext_reason a = Some None \<Longrightarrow> signal_reason (abort_ext x a) = Some x"
  by (auto simp: abort_ext_def signal_reason_def Let_def split: option.splits if_splits)

text \<open>
  C6. The signal is a latch. A trigger is a call of \<^verbatim>\<open>abort\<close> on the controller of the
  program (timeout, buffer overflow, input failure) or on the controller of the caller.
  The first trigger records its reason. Once a reason \<open>r\<close> is recorded, it stays
  recorded whatever follows: another trigger of either kind, the input feeder, any list of
  events of \<^verbatim>\<open>spawn\<close> or of \<^verbatim>\<open>exec\<close>; and the child is not asked to terminate again.
\<close>

theorem first_reason_wins:
  "(signal_reason (ab s) = None \<and> own_reason (ab s) = None \<longrightarrow>
      signal_reason (abort_own x (ab s)) = Some x)
   \<and> (signal_reason (ab s) = None \<and> ext_reason (ab s) = Some None \<longrightarrow>
      signal_reason (abort_ext x (ab s)) = Some x)
   \<and> (signal_reason (ab s) = Some r \<longrightarrow>
      signal_reason (abort_own x (ab s)) = Some r \<and>
      signal_reason (abort_ext x (ab s)) = Some r \<and>
      signal_reason (ab (handleInput P ch inp s)) = Some r \<and>
      signal_reason (ab (run_events P opts s es)) = Some r \<and>
      kills (ab (run_events P opts s es)) = kills (ab s) \<and>
      signal_reason (exec_run P opts (ab s) xes) = Some r \<and>
      kills (exec_run P opts (ab s) xes) = kills (ab s))"
  using abort_own_records [of "ab s" x] abort_ext_records [of "ab s" x]
    abort_own_keeps [of "ab s" r x] abort_ext_keeps [of "ab s" r x]
    handleInput_keeps [of s r P ch inp] run_events_keeps [of s r P opts es]
    exec_run_keeps [of "ab s" r P opts xes]
  by blast


text \<open>The timeout and the caller's abort, in both orders: the one that comes first
  gives the reason.\<close>

theorem first_reason_wins_witness:
  "signal_reason (ab (run_events byte_codec racing (awaiting byte_codec racing idle_child)
      [Timer_fired, External_abort (Error_inst ''user'')])) =
     Some (Error_inst ''Command timed out after 5ms'')
   \<and> signal_reason (ab (run_events byte_codec racing (awaiting byte_codec racing idle_child)
      [External_abort (Error_inst ''user''), Timer_fired])) =
     Some (Error_inst ''user'')
   \<and> signal_reason (abort_own (Error_inst ''first'') (ab (awaiting byte_codec racing idle_child))) =
     Some (Error_inst ''first'')
   \<and> signal_reason (abort_ext (Error_inst ''first'') (ab (awaiting byte_codec racing idle_child))) =
     Some (Error_inst ''first'')"
proof -
  let ?s0 = "awaiting byte_codec racing idle_child"
  let ?s1 = "run_events byte_codec racing ?s0 [Timer_fired]"
  let ?s2 = "run_events byte_codec racing ?s0 [External_abort (Error_inst ''user'')]"
  have fresh: "signal_reason (ab ?s0) = None \<and> own_reason (ab ?s0) = None \<and>
      ext_reason (ab ?s0) = Some None"
    by (simp add: run_defs racing_def idle_child_def no_options_def print_number_5)
  have timed: "signal_reason (ab ?s1) = Some (Error_inst ''Command timed out after 5ms'')"
    by (simp add: run_defs racing_def idle_child_def no_options_def print_number_5)
  have asked: "signal_reason (ab ?s2) = Some (Error_inst ''user'')"
    by (simp add: run_defs racing_def idle_child_def no_options_def print_number_5)
  have "signal_reason (ab (run_events byte_codec racing ?s1 [External_abort (Error_inst ''user'')])) =
      Some (Error_inst ''Command timed out after 5ms'')"
    using first_reason_wins [of ?s1 _ "Error_inst ''Command timed out after 5ms''" byte_codec _ _
        racing "[External_abort (Error_inst ''user'')]"] timed
    by blast
  moreover have "signal_reason (ab (run_events byte_codec racing ?s2 [Timer_fired])) =
      Some (Error_inst ''user'')"
    using first_reason_wins [of ?s2 _ "Error_inst ''user''" byte_codec _ _ racing "[Timer_fired]"]
      asked
    by blast
  moreover have "signal_reason (abort_own (Error_inst ''first'') (ab ?s0)) = Some (Error_inst ''first'')"
    "signal_reason (abort_ext (Error_inst ''first'') (ab ?s0)) = Some (Error_inst ''first'')"
    using first_reason_wins [of ?s0 "Error_inst ''first''"] fresh by blast+
  ultimately show ?thesis by simp
qed

section \<open>The timeout\<close>



lemma signal_reason_timer [simp]: "signal_reason (a\<lparr>timer := b\<rparr>) = signal_reason a"
  by (simp add: signal_reason_def)

lemma signal_reason_listening [simp]: "signal_reason (a\<lparr>listening := b\<rparr>) = signal_reason a"
  by (simp add: signal_reason_def)





lemma handle_not_quiet:
  "signal_reason (ab s) \<noteq> None \<Longrightarrow> signal_reason (ab (handle P opts e s)) \<noteq> None"
  using handle_keeps [of s _ P opts e] by auto














section \<open>The input feeder\<close>

lemma drive_not_rejected: "drive P opts s es \<noteq> Rejected x"
proof (induction es arbitrary: s)
  case Nil
  then show ?case by simp
next
  case (Cons e es)
  then show ?case by (cases e) simp_all
qed

lemma exec_drive_not_rejected: "exec_drive P opts a es \<noteq> Rejected x"
proof (induction es arbitrary: a)
  case Nil
  then show ?case by simp
next
  case (Cons e es)
  then show ?case by (cases e) simp_all
qed

lemma own_reason_abort_own:
  "own_reason a = None \<Longrightarrow> own_reason (abort_own x a) = Some x"
  by (simp add: abort_own_def Let_def split: option.splits)

lemma handleInput_fault:
  assumes stdin: "has_stdin ch" and fault: "stdin_fault ch = Some e"
  shows "handleInput P ch (Some payload) s =
     s\<lparr>stdin_ended := True,
       ab := abort_own (Error_inst (''Failed to write to stdin: '' @
               (case e of Error_inst m \<Rightarrow> m | Non_error v \<Rightarrow> v))) (ab s)\<rparr>"
  using assms by (simp add: handleInput_def try_input_def write_failure_message_def Let_def)

lemma handleInput_stream:
  assumes stdin: "has_stdin ch" and fault: "stdin_fault ch = None"
  shows "handleInput P ch (Some Stream) s =
     s\<lparr>stdin_piped := True, end_listener := True, error_listener := True\<rparr>"
  using assms by (simp add: handleInput_def try_input_def)

text \<open>
  C8. \<^verbatim>\<open>handleInput\<close> does not throw. When the first operation on the input stream of the
  child throws a value \<open>e\<close>, whatever the payload, the stream is ended and the controller is
  aborted with the reason \<^verbatim>\<open>Failed to write to stdin: <message of e>\<close>, which the signal
  records unless it already has a reason. When the payload is a stream and this stream
  emits an error with message \<open>m'\<close>, the controller is aborted with the reason
  \<^verbatim>\<open>Input stream error: <m'>\<close>. Whatever the input stream does, \<^verbatim>\<open>spawn\<close> does not reject
  once the child is launched.
\<close>

theorem input_feeder_recovers:
  "(has_stdin ch \<and> stdin_fault ch = Some e \<and> own_reason (ab s) = None \<longrightarrow>
      stdin_ended (handleInput P ch (Some payload) s) \<and>
      own_reason (ab (handleInput P ch (Some payload) s)) =
        Some (Error_inst (''Failed to write to stdin: '' @
          (case e of Error_inst m \<Rightarrow> m | Non_error v \<Rightarrow> v))) \<and>
      (signal_reason (ab s) = None \<longrightarrow>
         signal_reason (ab (handleInput P ch (Some payload) s)) =
           Some (Error_inst (''Failed to write to stdin: '' @
             (case e of Error_inst m \<Rightarrow> m | Non_error v \<Rightarrow> v)))))
   \<and> (has_stdin ch \<and> stdin_fault ch = None \<and> own_reason (ab s) = None \<longrightarrow>
      own_reason (ab (handle P opts (Input_error m') (handleInput P ch (Some Stream) s))) =
        Some (Error_inst (''Input stream error: '' @ m')) \<and>
      (signal_reason (ab s) = None \<longrightarrow>
         signal_reason (ab (handle P opts (Input_error m') (handleInput P ch (Some Stream) s))) =
           Some (Error_inst (''Input stream error: '' @ m'))))
   \<and> (host command args (handed h a) = Launched ch \<longrightarrow>
      snd (spawn P host command args h a) \<noteq> Rejected x)"
proof (intro conjI impI)
  assume "has_stdin ch \<and> stdin_fault ch = Some e \<and> own_reason (ab s) = None"
  then have A: "has_stdin ch" "stdin_fault ch = Some e" "own_reason (ab s) = None" by simp_all
  note eq = handleInput_fault [OF A(1,2), of P payload s]
  show "stdin_ended (handleInput P ch (Some payload) s)" by (simp add: eq)
  show "own_reason (ab (handleInput P ch (Some payload) s)) =
      Some (Error_inst (''Failed to write to stdin: '' @
        (case e of Error_inst m \<Rightarrow> m | Non_error v \<Rightarrow> v)))"
    by (simp add: eq own_reason_abort_own [OF A(3)])
  assume "signal_reason (ab s) = None"
  from abort_own_records [OF this A(3)]
  show "signal_reason (ab (handleInput P ch (Some payload) s)) =
      Some (Error_inst (''Failed to write to stdin: '' @
        (case e of Error_inst m \<Rightarrow> m | Non_error v \<Rightarrow> v)))"
    by (simp add: eq)
next
  assume "has_stdin ch \<and> stdin_fault ch = None \<and> own_reason (ab s) = None"
  then have A: "has_stdin ch" "stdin_fault ch = None" "own_reason (ab s) = None" by simp_all
  note eq = handleInput_stream [OF A(1,2), of P s]
  show "own_reason (ab (handle P opts (Input_error m') (handleInput P ch (Some Stream) s))) =
      Some (Error_inst (''Input stream error: '' @ m'))"
    by (simp add: eq on_input_error_def own_reason_abort_own [OF A(3)])
  assume "signal_reason (ab s) = None"
  from abort_own_records [OF this A(3)]
  show "signal_reason (ab (handle P opts (Input_error m') (handleInput P ch (Some Stream) s))) =
      Some (Error_inst (''Input stream error: '' @ m'))"
    by (simp add: eq on_input_error_def)
next
  assume "host command args (handed h a) = Launched ch"
  with spawn_launched [where host = host and P = P, of command args h a ch]
  show "snd (spawn P host command args h a) \<noteq> Rejected x"
    by (simp add: drive_not_rejected)
qed


text \<open>A write that throws \<^verbatim>\<open>write EPIPE\<close>, and a source stream that fails with
  \<^verbatim>\<open>read failed\<close>.\<close>

theorem input_feeder_witness:
  "stdin_ended (handleInput byte_codec broken_stdin (Some (Text ''hello''))
      (initial (setupAbortHandling no_options)))
   \<and> signal_reason (ab (handleInput byte_codec broken_stdin (Some (Text ''hello''))
      (initial (setupAbortHandling no_options)))) =
     Some (Error_inst ''Failed to write to stdin: write EPIPE'')
   \<and> signal_reason (ab (handle byte_codec no_options (Input_error ''read failed'')
      (handleInput byte_codec failing_stream (Some Stream) (initial (setupAbortHandling no_options))))) =
     Some (Error_inst ''Input stream error: read failed'')
   \<and> snd (spawn byte_codec (gives broken_stdin) ''cat'' []
      [no_options\<lparr>input := Some (Text ''hello'')\<rparr>] 0) \<noteq> Rejected (Error_inst ''write EPIPE'')"
proof -
  let ?s = "initial (setupAbortHandling no_options)"
  have fresh: "own_reason (ab ?s) = None \<and> signal_reason (ab ?s) = None"
    by (simp add: initial_def setupAbortHandling_def no_options_def signal_reason_def)
  have b: "has_stdin broken_stdin \<and> stdin_fault broken_stdin = Some (Error_inst ''write EPIPE'')"
    by (simp add: broken_stdin_def)
  have f: "has_stdin failing_stream \<and> stdin_fault failing_stream = None"
    by (simp add: failing_stream_def)
  have l: "gives broken_stdin ''cat'' [] (handed [no_options\<lparr>input := Some (Text ''hello'')\<rparr>] 0) =
      Launched broken_stdin"
    by (simp add: gives_def)
  note T1 = input_feeder_recovers [where ch = broken_stdin and e = "Error_inst ''write EPIPE''"
      and s = ?s and P = byte_codec and payload = "Text ''hello''" and host = "gives broken_stdin"
      and command = "''cat''" and args = "[]" and h = "[no_options\<lparr>input := Some (Text ''hello'')\<rparr>]"
      and a = 0 and x = "Error_inst ''write EPIPE''"]
  note T2 = input_feeder_recovers [where ch = failing_stream and s = ?s and P = byte_codec
      and opts = no_options and m' = "''read failed''", THEN conjunct2, THEN conjunct1]
  from T1 [THEN conjunct1] b fresh T2 f T1 [THEN conjunct2, THEN conjunct2] l
  show ?thesis by simp
qed

section \<open>The options\<close>

lemma spawnOptions_eq:
  "spawnOptions h a =
     (h @ [(h ! a)\<lparr>timeout := None, maxBuffer := None, encoding := None, input := None\<rparr>], length h)"
  by (simp add: spawnOptions_def spread_def assign_def Let_def)

lemma execOptions_eq:
  "execOptions h a =
     (h @ [(h ! a)\<lparr>encoding := Some ''buffer'', maxBuffer := Some (maxBuffer_of (h ! a)),
              timeout := None, signal := None\<rparr>], length h)"
  by (simp add: execOptions_def spread_def assign_def Let_def)

lemma fst_spawn: "fst (spawn P host command args h a) = fst (spawnOptions h a)"
  by (simp add: spawn_def Let_def split: prod.splits launch.splits)

lemma fst_exec:
  "fst (exec P host xhost command h a) =
     (if input (h ! a) \<noteq> None
      then fst (spawnOptions (h @ [(h ! a)\<lparr>others := (others (h ! a))(''shell'' \<mapsto> HBool True)\<rparr>]) (length h))
      else fst (execOptions h a))"
  by (simp add: exec_def spread_def fst_spawn Let_def split: prod.splits exec_launch.splits)

lemma spawn_frame: "take (length h) (fst (spawn P host command args h a)) = h"
  by (simp add: fst_spawn spawnOptions_eq)

lemma exec_frame: "take (length h) (fst (exec P host xhost command h a)) = h"
  by (simp add: fst_exec spawnOptions_eq execOptions_eq)

text \<open>
  C9. The object that \<^verbatim>\<open>spawn\<close> hands to the process host is the caller's options
  without \<^verbatim>\<open>timeout\<close>, \<^verbatim>\<open>maxBuffer\<close>, \<^verbatim>\<open>encoding\<close> and \<^verbatim>\<open>input\<close>. Every other
  property is there as the caller gave it: each option of the host, and also
  \<^verbatim>\<open>signal\<close>, which the program reads but does not delete. The host is given this
  object and no other.
\<close>

theorem host_options:
  "handed h a = (h ! a)\<lparr>timeout := None, maxBuffer := None, encoding := None, input := None\<rparr>
   \<and> timeout (handed h a) = None \<and> maxBuffer (handed h a) = None
   \<and> encoding (handed h a) = None \<and> input (handed h a) = None
   \<and> signal (handed h a) = signal (h ! a)
   \<and> (\<forall>k. others (handed h a) k = others (h ! a) k)
   \<and> snd (spawn P host command args h a) =
       (case host command args (handed h a) of
          Throws e \<Rightarrow> Rejected e
        | Launched ch \<Rightarrow> drive P (h ! a) (awaiting P (h ! a) ch) (events ch))"
  by (simp add: handed_def spawnOptions_eq spawn_def awaiting_def Let_def split: launch.splits)

text \<open>Options with all five recognized options and \<^verbatim>\<open>cwd\<close>.\<close>

theorem host_options_witness:
  "handed [with_cwd] 0 =
     \<lparr>timeout = None, maxBuffer = None, encoding = None, signal = Some None, input = None,
      others = [''cwd'' \<mapsto> HStr ''/tmp'']\<rparr>"
  using host_options [of "[with_cwd]" 0] by (simp add: with_cwd_def)

text \<open>
  C10. Neither \<^verbatim>\<open>spawn\<close> nor \<^verbatim>\<open>exec\<close> changes the object the caller passed: after
  the call the store holds at the caller's reference the object it held before, with
  \<^verbatim>\<open>timeout\<close>, \<^verbatim>\<open>maxBuffer\<close>, \<^verbatim>\<open>encoding\<close>, \<^verbatim>\<open>signal\<close> and \<^verbatim>\<open>input\<close> as
  passed. The deletions go to the copy.
\<close>

theorem caller_options_untouched:
  "a < length h \<Longrightarrow>
   fst (spawn P host command args h a) ! a = h ! a \<and>
   fst (exec P host xhost command h a) ! a = h ! a"
proof -
  assume a: "a < length h"
  have "fst (spawn P host command args h a) ! a =
      take (length h) (fst (spawn P host command args h a)) ! a"
    using a by simp
  moreover have "fst (exec P host xhost command h a) ! a =
      take (length h) (fst (exec P host xhost command h a)) ! a"
    using a by simp
  ultimately show ?thesis by (simp add: spawn_frame exec_frame)
qed

text \<open>\<^verbatim>\<open>spawn\<close>, \<^verbatim>\<open>exec\<close> with an input and \<^verbatim>\<open>exec\<close> without one.\<close>

theorem caller_options_witness:
  "(0 :: nat) < length [with_cwd]
   \<and> fst (spawn byte_codec (plays [Close (Some 0)]) ''cat'' [] [with_cwd] 0) ! 0 = with_cwd
   \<and> fst (exec byte_codec (plays [Close (Some 0)]) (exec_plays []) ''cat'' [with_cwd] 0) ! 0 = with_cwd
   \<and> fst (exec byte_codec (plays []) (exec_plays [Exec_resolved []]) ''true'' [no_options] 0) ! 0 =
       no_options"
proof -
  have l: "(0 :: nat) < length [with_cwd]" "(0 :: nat) < length [no_options]" by simp_all
  from caller_options_untouched [OF l(1), where P = byte_codec and host = "plays [Close (Some 0)]"
      and command = "''cat''" and args = "[]" and xhost = "exec_plays []"]
    caller_options_untouched [OF l(2), where P = byte_codec and host = "plays []"
      and command = "''true''" and args = "[]" and xhost = "exec_plays [Exec_resolved []]"]
  show ?thesis by simp
qed

section \<open>The output ceiling\<close>

lemma own_reason_abort_own_set: "own_reason (abort_own x a) \<noteq> None"
  by (simp add: abort_own_def Let_def split: option.splits)

lemma own_reason_abort_own_kept: "own_reason a = Some r \<Longrightarrow> own_reason (abort_own x a) = Some r"
  by (simp add: abort_own_def)

lemma own_reason_abort_ext [simp]: "own_reason (abort_ext x a) = own_reason a"
  by (simp add: abort_ext_def Let_def split: option.splits)

lemma own_reason_on_timeout:
  "own_reason (on_timeout P opts a) = None \<Longrightarrow> own_reason a = None"
  using own_reason_abort_own_set [of _ "a\<lparr>timer := False\<rparr>"]
  by (cases "own_reason a") (auto simp: on_timeout_def abort_own_def split: option.splits if_splits)

text \<open>
  C1, as the program has it. After a chunk is appended to the error buffer, the
  controller is aborted with the reason \<^verbatim>\<open>MaxBuffer size exceeded (<ceiling> bytes)\<close>
  whenever the combined count of both buffers exceeds the ceiling, and the signal records
  that reason unless it has one. When the listener of the output stream aborts the
  controller, it is with that reason too, and the combined count exceeds the ceiling. A
  controller that is already aborted keeps its reason.
  A chunk of either stream is kept in every case, also after the cancellation. So the
  bound of one chunk holds at the crossing only: a chunk of the error stream that finds the
  combined count within the ceiling leaves it at most its own size above the ceiling, and
  when the controller is not aborted after it, the combined count is within the ceiling.
\<close>

theorem output_ceiling:
  "errorChunks (on_stderr_data P m c s) = errorChunks s @ [case c of Buf b \<Rightarrow> b | Txt t \<Rightarrow> encode_utf8 P t]
   \<and> dataChunks (on_stdout_data P m b s) = dataChunks s @ [b]
   \<and> (exceeds (dataLength (on_stderr_data P m c s) + errorLength (on_stderr_data P m c s)) m \<and>
       own_reason (ab s) = None \<longrightarrow>
         own_reason (ab (on_stderr_data P m c s)) =
           Some (Error_inst (''MaxBuffer size exceeded ('' @ number_toString P m @ '' bytes)'')))
   \<and> (exceeds (dataLength (on_stderr_data P m c s) + errorLength (on_stderr_data P m c s)) m \<and>
       own_reason (ab s) = None \<and> signal_reason (ab s) = None \<longrightarrow>
         signal_reason (ab (on_stderr_data P m c s)) =
           Some (Error_inst (''MaxBuffer size exceeded ('' @ number_toString P m @ '' bytes)'')))
   \<and> (own_reason (ab s) = Some r \<longrightarrow>
         own_reason (ab (on_stderr_data P m c s)) = Some r \<and>
         own_reason (ab (on_stdout_data P m b s)) = Some r)
   \<and> (own_reason (ab s) = None \<and> own_reason (ab (on_stdout_data P m b s)) \<noteq> None \<longrightarrow>
         own_reason (ab (on_stdout_data P m b s)) =
           Some (Error_inst (''MaxBuffer size exceeded ('' @ number_toString P m @ '' bytes)'')) \<and>
         exceeds (dataLength (on_stdout_data P m b s) + errorLength (on_stdout_data P m b s)) m)
   \<and> (own_reason (ab (on_stderr_data P m c s)) = None \<longrightarrow>
         \<not> exceeds (dataLength (on_stderr_data P m c s) + errorLength (on_stderr_data P m c s)) m)
   \<and> (\<not> exceeds (dataLength s + errorLength s) (Finite q) \<longrightarrow>
         \<not> exceeds (dataLength (on_stderr_data P (Finite q) c s) +
                    errorLength (on_stderr_data P (Finite q) c s))
             (Finite (q + of_nat (case c of Buf b \<Rightarrow> length b | Txt t \<Rightarrow> length t))))"
proof -
  have kept: "errorChunks (on_stderr_data P m c s) =
      errorChunks s @ [case c of Buf b \<Rightarrow> b | Txt t \<Rightarrow> encode_utf8 P t]"
    "dataChunks (on_stdout_data P m b s) = dataChunks s @ [b]"
    by (simp_all add: on_stderr_data_def on_stdout_data_def Let_def)
  have own: "own_reason (ab (on_stderr_data P m c s)) =
      Some (Error_inst (''MaxBuffer size exceeded ('' @ number_toString P m @ '' bytes)''))"
    if "exceeds (dataLength (on_stderr_data P m c s) + errorLength (on_stderr_data P m c s)) m"
      and "own_reason (ab s) = None"
    using that
    by (auto simp: on_stderr_data_def Let_def maxBuffer_message_def own_reason_abort_own
        split: if_splits)
  have sig: "signal_reason (ab (on_stderr_data P m c s)) =
      Some (Error_inst (''MaxBuffer size exceeded ('' @ number_toString P m @ '' bytes)''))"
    if "exceeds (dataLength (on_stderr_data P m c s) + errorLength (on_stderr_data P m c s)) m"
      and "own_reason (ab s) = None" and "signal_reason (ab s) = None"
    using that
    by (auto simp: on_stderr_data_def Let_def maxBuffer_message_def abort_own_records
        split: if_splits)
  have first: "own_reason (ab (on_stderr_data P m c s)) = Some r \<and>
      own_reason (ab (on_stdout_data P m b s)) = Some r"
    if "own_reason (ab s) = Some r"
    using that
    by (simp add: on_stderr_data_def on_stdout_data_def Let_def own_reason_abort_own_kept)
  have only: "own_reason (ab (on_stdout_data P m b s)) =
        Some (Error_inst (''MaxBuffer size exceeded ('' @ number_toString P m @ '' bytes)'')) \<and>
      exceeds (dataLength (on_stdout_data P m b s) + errorLength (on_stdout_data P m b s)) m"
    if "own_reason (ab s) = None" and "own_reason (ab (on_stdout_data P m b s)) \<noteq> None"
    using that
    by (cases m)
       (auto simp: on_stdout_data_def Let_def maxBuffer_message_def own_reason_abort_own
          exceeds_def split: if_splits)
  have within: "\<not> exceeds (dataLength (on_stderr_data P m c s) +
      errorLength (on_stderr_data P m c s)) m"
    if "own_reason (ab (on_stderr_data P m c s)) = None"
    using that
    by (auto simp: on_stderr_data_def Let_def own_reason_abort_own_set split: if_splits)
  have soft: "\<not> exceeds (dataLength (on_stderr_data P (Finite q) c s) +
      errorLength (on_stderr_data P (Finite q) c s))
      (Finite (q + of_nat (case c of Buf b \<Rightarrow> length b | Txt t \<Rightarrow> length t)))"
    if "\<not> exceeds (dataLength s + errorLength s) (Finite q)"
    using that
    by (cases c) (auto simp: on_stderr_data_def Let_def exceeds_def split: if_splits)
  from kept own sig first only within soft show ?thesis by blast
qed

text \<open>A ceiling of 10 bytes: a chunk of 11 bytes on the error stream aborts the
  controller and leaves the count 11 bytes above nothing, within one chunk of the ceiling;
  a chunk of 2 bytes does not abort it.\<close>

theorem output_ceiling_witness:
  "signal_reason (ab (on_stderr_data byte_codec (Finite 10) (Buf eleven)
      (awaiting byte_codec capped idle_child))) =
     Some (Error_inst ''MaxBuffer size exceeded (10 bytes)'')
   \<and> \<not> exceeds (dataLength (on_stderr_data byte_codec (Finite 10) (Buf eleven)
          (awaiting byte_codec capped idle_child)) +
        errorLength (on_stderr_data byte_codec (Finite 10) (Buf eleven)
          (awaiting byte_codec capped idle_child))) (Finite 21)
   \<and> \<not> exceeds (dataLength (on_stderr_data byte_codec (Finite 10) (Buf [1, 2])
          (awaiting byte_codec capped idle_child)) +
        errorLength (on_stderr_data byte_codec (Finite 10) (Buf [1, 2])
          (awaiting byte_codec capped idle_child))) (Finite 10)"
proof -
  let ?s = "awaiting byte_codec capped idle_child"
  have fresh: "own_reason (ab ?s) = None" "signal_reason (ab ?s) = None"
      "dataLength ?s = 0" "errorLength ?s = 0"
    by (simp_all add: run_defs capped_def idle_child_def no_options_def)
  have over: "exceeds (dataLength (on_stderr_data byte_codec (Finite 10) (Buf eleven) ?s) +
      errorLength (on_stderr_data byte_codec (Finite 10) (Buf eleven) ?s)) (Finite 10)"
    using fresh by (simp add: on_stderr_data_def Let_def eleven_def exceeds_def)
  have under: "\<not> exceeds (dataLength ?s + errorLength ?s) (Finite 10)"
    using fresh by (simp add: exceeds_def)
  have quiet: "own_reason (ab (on_stderr_data byte_codec (Finite 10) (Buf [1, 2]) ?s)) = None"
    using fresh by (simp add: on_stderr_data_def Let_def exceeds_def)
  have msg: "''MaxBuffer size exceeded ('' @ number_toString byte_codec (Finite 10) @ '' bytes)'' =
      ''MaxBuffer size exceeded (10 bytes)''"
    by (simp add: print_number_10)
  have size: "(10 :: rat) + of_nat (case Buf eleven of Buf b \<Rightarrow> length b | Txt t \<Rightarrow> length t) = 21"
    by (simp add: eleven_def)
  note T = output_ceiling [where P = byte_codec and m = "Finite 10" and c = "Buf eleven"
      and s = ?s and q = 10]
  note T' = output_ceiling [where P = byte_codec and m = "Finite 10" and c = "Buf [1, 2]"
      and s = ?s]
  from T over fresh(1,2)
  have a: "signal_reason (ab (on_stderr_data byte_codec (Finite 10) (Buf eleven) ?s)) =
      Some (Error_inst ''MaxBuffer size exceeded (10 bytes)'')"
    unfolding msg by blast
  from T under
  have b: "\<not> exceeds (dataLength (on_stderr_data byte_codec (Finite 10) (Buf eleven) ?s) +
      errorLength (on_stderr_data byte_codec (Finite 10) (Buf eleven) ?s)) (Finite 21)"
    unfolding size by blast
  from T' quiet
  have c: "\<not> exceeds (dataLength (on_stderr_data byte_codec (Finite 10) (Buf [1, 2]) ?s) +
      errorLength (on_stderr_data byte_codec (Finite 10) (Buf [1, 2]) ?s)) (Finite 10)"
    by blast
  from a b c show ?thesis by simp
qed

text \<open>
  C1, as it is stated, fails where the program follows its design: the listeners keep
  appending after the cancellation. With a ceiling of 10 bytes the first chunk of 11 bytes
  crosses the ceiling and cancels; the second one is appended all the same, and the
  combined count, 22, exceeds the ceiling by more than the 11 bytes of the chunk that
  crossed it.
\<close>

theorem ceiling_exceeded_after_cancel:
  "maxBuffer_of capped = Finite 10
   \<and> \<not> exceeds (dataLength (awaiting byte_codec capped idle_child) +
        errorLength (awaiting byte_codec capped idle_child)) (Finite 10)
   \<and> signal_reason (ab (run_events byte_codec capped (awaiting byte_codec capped idle_child)
        [Stderr_data (Buf eleven)])) = Some (Error_inst ''MaxBuffer size exceeded (10 bytes)'')
   \<and> exceeds (dataLength (run_events byte_codec capped (awaiting byte_codec capped idle_child)
          [Stderr_data (Buf eleven), Stderr_data (Buf eleven)]) +
        errorLength (run_events byte_codec capped (awaiting byte_codec capped idle_child)
          [Stderr_data (Buf eleven), Stderr_data (Buf eleven)]))
       (Finite (10 + of_nat (length eleven)))"
  by (simp add: run_defs capped_def idle_child_def no_options_def eleven_def print_number_10)

text \<open>
  The listener of the output stream compares the count of the output buffer alone with the
  ceiling (line 172), where the listener of the error stream compares the sum (line 181).
  So 8 bytes of errors followed by 8 bytes of output pass a ceiling of 10 bytes without a
  cancellation, while the same chunks in the other order are cancelled.
\<close>

lemma stdout_check_ignores_stderr:
  "signal_reason (ab (run_events byte_codec capped (awaiting byte_codec capped idle_child)
      [Stderr_data (Buf eight), Stdout_data eight])) = None
   \<and> dataLength (run_events byte_codec capped (awaiting byte_codec capped idle_child)
      [Stderr_data (Buf eight), Stdout_data eight]) +
     errorLength (run_events byte_codec capped (awaiting byte_codec capped idle_child)
      [Stderr_data (Buf eight), Stdout_data eight]) = 16
   \<and> maxBuffer_of capped = Finite 10
   \<and> signal_reason (ab (run_events byte_codec capped (awaiting byte_codec capped idle_child)
      [Stdout_data eight, Stderr_data (Buf eight)])) =
     Some (Error_inst ''MaxBuffer size exceeded (10 bytes)'')"
  by (simp add: run_defs capped_def idle_child_def no_options_def eight_def print_number_10)

section \<open>Rejections\<close>

lemma spawn_rejects_iff:
  "snd (spawn P host command args h a) = Rejected x \<longleftrightarrow> host command args (handed h a) = Throws x"
  by (cases "host command args (handed h a)")
     (simp_all add: spawn_def handed_def Let_def drive_not_rejected split: prod.splits)

lemma exec_rejects_iff:
  "input (h ! a) = None \<Longrightarrow>
   snd (exec P host xhost command h a) = Rejected x \<longleftrightarrow> xhost command (exec_handed h a) = Exec_throws x"
  by (cases "xhost command (exec_handed h a)")
     (simp_all add: exec_def exec_handed_def Let_def exec_drive_not_rejected split: prod.splits)

text \<open>
  C2 says that no call of \<^verbatim>\<open>spawn\<close> or \<^verbatim>\<open>exec\<close> rejects. The launch of the child
  (line 146, and line 253 in \<^verbatim>\<open>exec\<close>) stands before the \<^verbatim>\<open>try\<close> block, so a host
  that throws at the launch makes the promise reject: here with the empty command, for
  both runners.
\<close>

theorem empty_command_rejects:
  "snd (spawn byte_codec validating_host [] [] [no_options] 0) =
     Rejected (Error_inst ''ERR_INVALID_ARG_VALUE'')
   \<and> snd (exec byte_codec validating_host validating_exec_host [] [no_options] 0) =
     Rejected (Error_inst ''ERR_INVALID_ARG_VALUE'')"
  by (simp add: spawn_def exec_def validating_host_def validating_exec_host_def no_options_def
      spawnOptions_eq execOptions_eq Let_def)

section \<open>The two variants\<close>

lemma createResult_shape:
  "createResult P c dc dl ec el enc = Inr r \<Longrightarrow>
   (error r = None \<and> c = Some 0 \<and> data r \<noteq> None \<and> dataAsBuffer r \<noteq> None)
   \<or> (error r \<noteq> None \<and> c \<noteq> Some 0 \<and> data r = None \<and> dataAsBuffer r = None)"
  by (auto simp: createResult_def toString_utf8 Let_def split: if_splits sum.splits)

lemma createErrorResult_shape:
  "error (createErrorResult err sig) \<noteq> None \<and> data (createErrorResult err sig) = None \<and>
   dataAsBuffer (createErrorResult err sig) = None \<and> code (createErrorResult err sig) = Some (- 1)"
  by (simp add: createErrorResult_def Let_def)

lemma drive_shape:
  "drive P opts s es = Resolved r \<Longrightarrow>
   (error r = None \<and> data r \<noteq> None \<and> dataAsBuffer r \<noteq> None) \<or>
   (error r \<noteq> None \<and> data r = None \<and> dataAsBuffer r = None)"
proof (induction es arbitrary: s)
  case Nil
  then show ?case by simp
next
  case (Cons e es)
  show ?case
  proof (cases e)
    case (Close c)
    with Cons.prems createResult_shape [of P c "dataChunks s" "dataLength s" "errorChunks s"
        "errorLength s" "encoding_of opts"]
      createErrorResult_shape
    show ?thesis by (auto simp: on_close_def split: option.splits sum.splits)
  next
    case (Child_error x)
    with Cons.prems createErrorResult_shape show ?thesis by auto
  qed (use Cons in simp_all)
qed

lemma exec_drive_shape:
  "exec_drive P opts a es = Resolved r \<Longrightarrow>
   (error r = None \<and> data r \<noteq> None \<and> dataAsBuffer r \<noteq> None) \<or>
   (error r \<noteq> None \<and> data r = None \<and> dataAsBuffer r = None)"
proof (induction es arbitrary: a)
  case Nil
  then show ?case by simp
next
  case (Cons e es)
  show ?case
  proof (cases e)
    case (Exec_resolved b)
    with Cons.prems createErrorResult_shape show ?thesis
      by (auto split: option.splits sum.splits)
  next
    case (Exec_rejected x)
    with Cons.prems createErrorResult_shape show ?thesis by auto
  qed (use Cons in simp_all)
qed

lemma spawn_shape:
  "snd (spawn P host command args h a) = Resolved r \<Longrightarrow>
   (error r = None \<and> data r \<noteq> None \<and> dataAsBuffer r \<noteq> None) \<or>
   (error r \<noteq> None \<and> data r = None \<and> dataAsBuffer r = None)"
  by (cases "host command args (handed h a)")
     (auto simp: spawn_def handed_def Let_def split: prod.splits dest: drive_shape)

lemma exec_shape:
  "snd (exec P host xhost command h a) = Resolved r \<Longrightarrow>
   (error r = None \<and> data r \<noteq> None \<and> dataAsBuffer r \<noteq> None) \<or>
   (error r \<noteq> None \<and> data r = None \<and> dataAsBuffer r = None)"
proof (cases "input (h ! a)")
  case None
  then show "snd (exec P host xhost command h a) = Resolved r \<Longrightarrow> ?thesis"
    by (cases "xhost command (exec_handed h a)")
       (auto simp: exec_def exec_handed_def Let_def split: prod.splits dest: exec_drive_shape)
next
  case (Some p)
  then show "snd (exec P host xhost command h a) = Resolved r \<Longrightarrow> ?thesis"
    using spawn_shape [of P host "''sh''" "[''-c'', command]" _ _ r]
    by (auto simp: exec_def Let_def split: prod.splits)
qed

text \<open>
  C5 says that the failure variant carries a numeric code. A child that a signal ended,
  without the program having cancelled, closes with the code \<^verbatim>\<open>null\<close>: the result is the
  failure variant, and \<^verbatim>\<open>null\<close> is the code of the error and of the result. The shape
  of the two variants itself is as claimed (\<open>spawn_shape\<close>, \<open>exec_shape\<close>).
\<close>

theorem signal_ended_child_code:
  "snd (spawn byte_codec (plays [Close None]) ''sh'' [''-c'', ''kill -9 $$''] [no_options] 0) =
     Resolved \<lparr>data = None, dataAsBuffer = None, error = Some (ExecUtilsError [] None), code = None\<rparr>"
  by (simp add: spawn_def spawnOptions_eq plays_def run_defs no_options_def byte_codec_def)

end
